theory Spec2Isabelle
  imports Complex_Main "HOL-Library.Multiset"
begin

section \<open>Arrays and numbers\<close>

text \<open>
  The program is \<^verbatim>\<open>dataset.py\<close>, the class \<^verbatim>\<open>ToothImageDataset\<close>. Its numpy arrays of
  shape \<open>(d0, d1, d2)\<close> (with a box or a number in every cell) are records of a shape and
  an indexing function; only the cells inside the shape are meaningful. Finite floating
  point numbers are modelled as exact reals (no rounding, no overflow, no negative zero);
  the non-finite values that numpy produces are values of their own in \<open>npfloat\<close>.
\<close>

datatype error = IndexError | ValueError

record 'a ndarray3 =
  shape3 :: "nat \<times> nat \<times> nat"
  item :: "nat \<Rightarrow> nat \<Rightarrow> nat \<Rightarrow> 'a"

record 'a ndarray4 =
  shape4 :: "nat \<times> nat \<times> nat \<times> nat"
  item4 :: "nat \<Rightarrow> nat \<Rightarrow> nat \<Rightarrow> nat \<Rightarrow> 'a"

record box =
  x_min :: real
  y_min :: real
  x_max :: real
  y_max :: real

definition in_shape :: "nat \<times> nat \<times> nat \<Rightarrow> nat \<Rightarrow> nat \<Rightarrow> nat \<Rightarrow> bool" where
  "in_shape s i j n = (case s of (d0, d1, d2) \<Rightarrow> i < d0 \<and> j < d1 \<and> n < d2)"

definition numel :: "nat \<times> nat \<times> nat \<Rightarrow> nat" where
  "numel s = (case s of (d0, d1, d2) \<Rightarrow> d0 * d1 * d2)"

text \<open>\<^verbatim>\<open>len(a)\<close> of an array is its first dimension.\<close>

definition len3 :: "'a ndarray3 \<Rightarrow> nat" where
  "len3 a = fst (shape3 a)"

text \<open>\<^verbatim>\<open>np.zeros(shape)\<close> and \<^verbatim>\<open>np.array([])\<close>, the latter of length 0.\<close>

definition full3 :: "nat \<times> nat \<times> nat \<Rightarrow> 'a \<Rightarrow> 'a ndarray3" where
  "full3 s v = \<lparr>shape3 = s, item = (\<lambda>i j n. v)\<rparr>"

definition empty_array :: "'a \<Rightarrow> 'a ndarray3" where
  "empty_array v = full3 (0, 0, 0) v"

text \<open>
  \<^verbatim>\<open>a.reshape(-1)\<close> and \<^verbatim>\<open>a.flatten()\<close>: the cells in row-major (C) order, the flat index
  \<open>k\<close> standing for the cell \<open>(k div (d1*d2), (k div d2) mod d1, k mod d2)\<close>.
\<close>

definition flatten :: "'a ndarray3 \<Rightarrow> 'a list" where
  "flatten a = (case shape3 a of (d0, d1, d2) \<Rightarrow>
     map (\<lambda>k. item a (k div (d1 * d2)) ((k div d2) mod d1) (k mod d2)) [0..<d0 * d1 * d2])"

text \<open>\<^verbatim>\<open>xs.reshape(s)\<close> of a flat sequence: numpy raises when the sizes differ.\<close>

definition reshape3 :: "nat \<times> nat \<times> nat \<Rightarrow> 'a list \<Rightarrow> error + 'a ndarray3" where
  "reshape3 s xs = (case s of (d0, d1, d2) \<Rightarrow>
     if length xs \<noteq> d0 * d1 * d2 then Inl ValueError
     else Inr \<lparr>shape3 = s, item = (\<lambda>i j n. xs ! ((i * d1 + j) * d2 + n))\<rparr>)"

section \<open>The class constants\<close>

definition INPUT_SIZE :: "nat \<times> nat" where
  "INPUT_SIZE = (1600, 800)"

definition OUTPUT_SIZE :: "nat \<times> nat" where
  "OUTPUT_SIZE = (50, 25)"

definition OUTPUT_CELL_SIZE :: real where
  "OUTPUT_CELL_SIZE = real (fst INPUT_SIZE) / real (fst OUTPUT_SIZE)"

definition RECEPTIVE_FIELD :: real where
  "RECEPTIVE_FIELD = 212"

definition ANCHORS_WIDTH_RATIOS :: "real list" where
  "ANCHORS_WIDTH_RATIOS = [0.3, 0.5, 1.0]"

definition ANCHORS_HEIGHT_RATIOS :: "real list" where
  "ANCHORS_HEIGHT_RATIOS = [0.3, 0.5, 1.0]"

definition NUMBER_ANCHORS_WIDE :: nat where
  "NUMBER_ANCHORS_WIDE = fst OUTPUT_SIZE"

definition NUMBER_ANCHORS_HEIGHT :: nat where
  "NUMBER_ANCHORS_HEIGHT = snd OUTPUT_SIZE"

definition NEGATIVE_THRESHOLD :: real where
  "NEGATIVE_THRESHOLD = 0.3"

definition POSITIVE_THRESHOLD :: real where
  "POSITIVE_THRESHOLD = 0.5"

definition ANCHOR_SAMPLING_SIZE :: nat where
  "ANCHOR_SAMPLING_SIZE = 256"

section \<open>Anchor generation\<close>

text \<open>
  \<^verbatim>\<open>get_anchor_dimensions\<close>: the outer loop runs over the width ratios, the inner one over
  the height ratios, each appending \<open>(w, h)\<close>.
\<close>

definition get_anchor_dimensions :: "(real \<times> real) list" where
  "get_anchor_dimensions =
     concat (map (\<lambda>w. map (\<lambda>h. (w, h)) ANCHORS_HEIGHT_RATIOS) ANCHORS_WIDTH_RATIOS)"

text \<open>The attributes set by \<^verbatim>\<open>__init__\<close>.\<close>

definition anchor_dimensions :: "(real \<times> real) list" where
  "anchor_dimensions = get_anchor_dimensions"

definition anchor_number :: nat where
  "anchor_number = length anchor_dimensions"

text \<open>\<^verbatim>\<open>get_anchors_at_position\<close>: one row \<open>[top_x, top_y, top_x + width, top_y + height]\<close>
  for each shape index.\<close>

definition get_anchors_at_position :: "nat \<times> nat \<Rightarrow> box list" where
  "get_anchors_at_position pos = (case pos of (x, y) \<Rightarrow>
     map (\<lambda>i.
        let center_x = OUTPUT_CELL_SIZE * (real x + 0.5);
            center_y = OUTPUT_CELL_SIZE * (real y + 0.5);
            width = fst (anchor_dimensions ! i) * RECEPTIVE_FIELD;
            height = snd (anchor_dimensions ! i) * RECEPTIVE_FIELD;
            top_x = center_x - width / 2.0;
            top_y = center_y - height / 2.0
        in \<lparr>x_min = top_x, y_min = top_y, x_max = top_x + width, y_max = top_y + height\<rparr>)
      [0..<anchor_number])"

text \<open>\<^verbatim>\<open>get_image_anchors\<close>: the cell \<open>[i, j, :]\<close> receives the anchors at position \<open>(i, j)\<close>.\<close>

definition get_image_anchors :: "box ndarray3" where
  "get_image_anchors =
     \<lparr>shape3 = (NUMBER_ANCHORS_WIDE, NUMBER_ANCHORS_HEIGHT, anchor_number),
      item = (\<lambda>i j n. get_anchors_at_position (i, j) ! n)\<rparr>"

section \<open>Matching anchors to ground-truth boxes\<close>

text \<open>
  Modelled from the spec: \<^verbatim>\<open>IoU\<close>, which the source takes from \<^verbatim>\<open>utils\<close>
  (\<^verbatim>\<open>from utils import *\<close>), a module that is not among the sources. The spec: the
  intersection area divided by the union area, the intersection's width and height
  clamped at 0, and exactly 0 when either box has zero area or the boxes do not overlap.
  The matcher below takes the overlap function as a parameter; this one serves as a
  concrete instance.
\<close>

definition IoU :: "box \<Rightarrow> box \<Rightarrow> real" where
  "IoU a b =
     (let iw = max 0 (min (x_max a) (x_max b) - max (x_min a) (x_min b));
          ih = max 0 (min (y_max a) (y_max b) - max (y_min a) (y_min b));
          inter = iw * ih;
          area_a = (x_max a - x_min a) * (y_max a - y_min a);
          area_b = (x_max b - x_min b) * (y_max b - y_min b)
      in if area_a = 0 \<or> area_b = 0 \<or> inter = 0 then 0
         else inter / (area_a + area_b - inter))"

text \<open>
  \<^verbatim>\<open>np.amax\<close> and \<^verbatim>\<open>np.argmax\<close> along one row: the maximum, and the index of its first
  occurrence. numpy raises on a row of length 0, which \<open>amax_axis3\<close> and
  \<open>argmax_axis3\<close> below check before any row is read.
\<close>

fun amax :: "real list \<Rightarrow> real" where
  "amax (x # xs) = (if xs = [] then x else max x (amax xs))"

fun argmax :: "real list \<Rightarrow> nat" where
  "argmax (x # xs) = (if xs = [] then 0 else if amax xs \<le> x then 0 else Suc (argmax xs))"

definition amax_axis3 :: "real ndarray4 \<Rightarrow> error + real ndarray3" where
  "amax_axis3 a = (case shape4 a of (d0, d1, d2, d3) \<Rightarrow>
     if d3 = 0 then Inl ValueError
     else Inr \<lparr>shape3 = (d0, d1, d2),
               item = (\<lambda>i j n. amax (map (item4 a i j n) [0..<d3]))\<rparr>)"

definition argmax_axis3 :: "real ndarray4 \<Rightarrow> error + nat ndarray3" where
  "argmax_axis3 a = (case shape4 a of (d0, d1, d2, d3) \<Rightarrow>
     if d3 = 0 then Inl ValueError
     else Inr \<lparr>shape3 = (d0, d1, d2),
               item = (\<lambda>i j n. argmax (map (item4 a i j n) [0..<d3]))\<rparr>)"

definition map3 :: "('a \<Rightarrow> 'b) \<Rightarrow> 'a ndarray3 \<Rightarrow> 'b ndarray3" where
  "map3 f a = \<lparr>shape3 = shape3 a, item = (\<lambda>i j n. f (item a i j n))\<rparr>"

definition zero_box :: box where
  "zero_box = \<lparr>x_min = 0, y_min = 0, x_max = 0, y_max = 0\<rparr>"

text \<open>
  The four nested loops of \<^verbatim>\<open>get_positive_negative_anchors\<close> write
  \<^verbatim>\<open>ious[i, j, n, b] = IoU(anchors[i, j, n], bboxes[b])\<close> for every cell of \<^verbatim>\<open>anchors\<close>
  into an array of zeros whose shape comes from the class constants. A cell of
  \<^verbatim>\<open>anchors\<close> outside that shape is an IndexError; the loops reach such a cell exactly
  when no dimension of \<^verbatim>\<open>anchors\<close> is 0 and one of them exceeds the constant. Cells that
  the loops do not reach stay 0.
\<close>

definition fill_ious :: "(box \<Rightarrow> box \<Rightarrow> real) \<Rightarrow> box ndarray3 \<Rightarrow> box list \<Rightarrow> error + real ndarray4" where
  "fill_ious iou anchors bboxes = (case shape3 anchors of (s0, s1, s2) \<Rightarrow>
     if 0 < s0 \<and> 0 < s1 \<and> 0 < s2 \<and> 0 < length bboxes \<and>
        (NUMBER_ANCHORS_WIDE < s0 \<or> NUMBER_ANCHORS_HEIGHT < s1 \<or> anchor_number < s2)
     then Inl IndexError
     else Inr \<lparr>shape4 = (NUMBER_ANCHORS_WIDE, NUMBER_ANCHORS_HEIGHT, anchor_number, length bboxes),
               item4 = (\<lambda>i j n b. if in_shape (shape3 anchors) i j n
                                     then iou (item anchors i j n) (bboxes ! b) else 0)\<rparr>)"

definition shape_prefix3 :: "nat \<times> nat \<times> nat \<times> nat \<Rightarrow> nat \<times> nat \<times> nat" where
  "shape_prefix3 s = (case s of (d0, d1, d2, d3) \<Rightarrow> (d0, d1, d2))"

text \<open>
  \<^verbatim>\<open>get_positive_negative_anchors\<close>, with the overlap function as a parameter. The
  ground-truth boxes are the rows of a two-dimensional array, a list of boxes here.
\<close>

definition get_positive_negative_anchors ::
  "(box \<Rightarrow> box \<Rightarrow> real) \<Rightarrow> box ndarray3 \<Rightarrow> box list
   \<Rightarrow> error + (box ndarray3 \<times> bool ndarray3 \<times> bool ndarray3)" where
  "get_positive_negative_anchors iou anchors bboxes =
     (if length bboxes = 0 then
        let ious = full3 (NUMBER_ANCHORS_WIDE, NUMBER_ANCHORS_HEIGHT, anchor_number) (0::real);
            positives = map3 (\<lambda>v. v > POSITIVE_THRESHOLD) ious;
            negatives = map3 (\<lambda>v. v < NEGATIVE_THRESHOLD) ious
        in Inr (empty_array zero_box, positives, negatives)
      else
        case fill_ious iou anchors bboxes of Inl e \<Rightarrow> Inl e | Inr ious \<Rightarrow>
        case argmax_axis3 ious of Inl e \<Rightarrow> Inl e | Inr am \<Rightarrow>
        let arg_truth_bbox = flatten am in
        case reshape3 (shape_prefix3 (shape4 ious)) (map (\<lambda>k. bboxes ! k) arg_truth_bbox) of
          Inl e \<Rightarrow> Inl e | Inr truth_bbox \<Rightarrow>
        case amax_axis3 ious of Inl e \<Rightarrow> Inl e | Inr max_iou_per_anchor \<Rightarrow>
        let positives = map3 (\<lambda>v. v > POSITIVE_THRESHOLD) max_iou_per_anchor;
            negatives = map3 (\<lambda>v. v < NEGATIVE_THRESHOLD) max_iou_per_anchor
        in Inr (truth_bbox, positives, negatives))"

section \<open>Regression targets\<close>

datatype npfloat = Fin real | PInf | NInf | NaN

text \<open>
  The four numbers \<^verbatim>\<open>reg[i, j, n, 0..3]\<close> of one anchor.
\<close>

record target =
  dx :: npfloat
  dy :: npfloat
  dw :: npfloat
  dh :: npfloat

text \<open>
  numpy's division and logarithm of floats: a division by zero is a warning, not an
  error, and gives an infinity, or NaN for \<open>0 / 0\<close>; the logarithm of 0 is \<open>-inf\<close>, that
  of a negative number NaN.
\<close>

definition np_div :: "real \<Rightarrow> real \<Rightarrow> npfloat" where
  "np_div a b =
     (if b = 0 then (if a = 0 then NaN else if 0 < a then PInf else NInf)
      else Fin (a / b))"

fun np_log :: "npfloat \<Rightarrow> npfloat" where
  "np_log (Fin x) = (if x = 0 then NInf else if x < 0 then NaN else Fin (ln x))"
| "np_log PInf = PInf"
| "np_log NInf = NaN"
| "np_log NaN = NaN"

text \<open>The largest finite value of \<^verbatim>\<open>np.float32\<close>, the element type of \<^verbatim>\<open>reg\<close>.\<close>

definition FLT_MAX :: real where
  "FLT_MAX = (2 - 1 / 2 ^ 23) * 2 ^ 127"

text \<open>
  \<^verbatim>\<open>np.nan_to_num\<close> with its default arguments: NaN becomes 0, an infinity becomes the
  largest finite value of the element type with the infinity's sign.
\<close>

fun nan_to_num :: "npfloat \<Rightarrow> npfloat" where
  "nan_to_num (Fin x) = Fin x"
| "nan_to_num PInf = Fin FLT_MAX"
| "nan_to_num NInf = Fin (- FLT_MAX)"
| "nan_to_num NaN = Fin 0"

definition zero_target :: target where
  "zero_target = \<lparr>dx = Fin 0, dy = Fin 0, dw = Fin 0, dh = Fin 0\<rparr>"

text \<open>Lines 173 to 176 of \<^verbatim>\<open>parametrize\<close> at one anchor, before \<^verbatim>\<open>nan_to_num\<close>.\<close>

definition raw_target :: "box \<Rightarrow> box \<Rightarrow> target" where
  "raw_target a b =
     \<lparr>dx = np_div (x_min b - x_min a) (x_max a - x_min a),
      dy = np_div (y_min b - y_min a) (y_max a - y_min a),
      dw = np_log (np_div (x_max b - x_min b) (x_max a - x_min a)),
      dh = np_log (np_div (y_max b - y_min b) (y_max a - y_min a))\<rparr>"

definition nan_to_num_target :: "target \<Rightarrow> target" where
  "nan_to_num_target t =
     \<lparr>dx = nan_to_num (dx t), dy = nan_to_num (dy t),
      dw = nan_to_num (dw t), dh = nan_to_num (dh t)\<rparr>"

text \<open>
  numpy broadcasts the matched boxes against the anchors: a dimension of \<^verbatim>\<open>bboxes\<close> has
  to equal that of \<^verbatim>\<open>anchors\<close> or be 1 (then its only cell is used at every index), or
  the assignment into \<^verbatim>\<open>reg\<close> raises.
\<close>

definition broadcastable :: "nat \<times> nat \<times> nat \<Rightarrow> nat \<times> nat \<times> nat \<Rightarrow> bool" where
  "broadcastable sb sa = (case sb of (b0, b1, b2) \<Rightarrow> case sa of (a0, a1, a2) \<Rightarrow>
     (b0 = a0 \<or> b0 = 1) \<and> (b1 = a1 \<or> b1 = 1) \<and> (b2 = a2 \<or> b2 = 1))"

definition bidx :: "nat \<Rightarrow> nat \<Rightarrow> nat" where
  "bidx d i = (if d = 1 then 0 else i)"

definition broadcast_item :: "'a ndarray3 \<Rightarrow> nat \<Rightarrow> nat \<Rightarrow> nat \<Rightarrow> 'a" where
  "broadcast_item b i j n = (case shape3 b of (b0, b1, b2) \<Rightarrow>
     item b (bidx b0 i) (bidx b1 j) (bidx b2 n))"

definition parametrize :: "box ndarray3 \<Rightarrow> box ndarray3 \<Rightarrow> error + target ndarray3" where
  "parametrize anchors bboxes =
     (let reg = full3 (shape3 anchors) zero_target in
      if len3 bboxes = 0 then Inr reg
      else if \<not> broadcastable (shape3 bboxes) (shape3 anchors) then Inl ValueError
      else Inr (map3 nan_to_num_target
             \<lparr>shape3 = shape3 anchors,
              item = (\<lambda>i j n. raw_target (item anchors i j n) (broadcast_item bboxes i j n))\<rparr>))"

section \<open>Sampling\<close>

text \<open>\<^verbatim>\<open>xs[mask]\<close> with a boolean mask: numpy raises when the lengths differ.\<close>

definition boolean_index :: "'a list \<Rightarrow> bool list \<Rightarrow> error + 'a list" where
  "boolean_index xs msk =
     (if length msk \<noteq> length xs then Inl IndexError
      else Inr (map fst (filter snd (zip xs msk))))"

text \<open>
  \<^verbatim>\<open>get_selected_indices_sample\<close>. The two draws of \<^verbatim>\<open>np.random.permutation\<close> are the
  parameters \<open>permutation1\<close> and \<open>permutation2\<close>: what the random source does to the
  array it is given at the first and at the second call.
\<close>

definition get_selected_indices_sample ::
  "(nat list \<Rightarrow> nat list) \<Rightarrow> (nat list \<Rightarrow> nat list) \<Rightarrow> nat list \<Rightarrow> bool ndarray3 \<Rightarrow> bool ndarray3
   \<Rightarrow> error + (nat list \<times> nat list)" where
  "get_selected_indices_sample permutation1 permutation2 indices positives negatives =
     (case boolean_index indices (flatten positives) of Inl e \<Rightarrow> Inl e | Inr positive_indices \<Rightarrow>
      case boolean_index indices (flatten negatives) of Inl e \<Rightarrow> Inl e | Inr negative_indices \<Rightarrow>
      let random_positives = take (ANCHOR_SAMPLING_SIZE div 2) (permutation1 positive_indices);
          random_negatives = take (ANCHOR_SAMPLING_SIZE - length random_positives)
                               (permutation2 negative_indices);
          selected_indices = random_positives @ random_negatives
      in Inr (selected_indices, positive_indices))"

text \<open>
  \<^verbatim>\<open>__getitem__\<close> from the ground-truth boxes on (reading and resizing the image and the
  conversion to torch tensors are left out): the anchors, the matching, the regression
  targets, the flat indices \<open>0, ..., len(anchors.reshape((-1, 4))) - 1\<close> and the sample.
\<close>

definition getitem_targets ::
  "(box \<Rightarrow> box \<Rightarrow> real) \<Rightarrow> (nat list \<Rightarrow> nat list) \<Rightarrow> (nat list \<Rightarrow> nat list) \<Rightarrow> box list
   \<Rightarrow> error + (target ndarray3 \<times> bool ndarray3 \<times> nat list \<times> nat list)" where
  "getitem_targets iou permutation1 permutation2 bboxes =
     (let anchors = get_image_anchors in
      case get_positive_negative_anchors iou anchors bboxes of Inl e \<Rightarrow> Inl e
      | Inr (truth_bbox, positives, negatives) \<Rightarrow>
      case parametrize anchors truth_bbox of Inl e \<Rightarrow> Inl e | Inr reg_target \<Rightarrow>
      let indices = [0..<length (flatten anchors)] in
      case get_selected_indices_sample permutation1 permutation2 indices positives negatives of
        Inl e \<Rightarrow> Inl e
      | Inr (selected_indices, positive_indices) \<Rightarrow>
          Inr (reg_target, positives, selected_indices, positive_indices))"

section \<open>Concrete inputs\<close>

text \<open>
  Small inputs on which the theorems below are instantiated: two anchors in one grid cell,
  a ground-truth box that overlaps them by exactly 0.5 and 0.3, and a list of ground-truth
  boxes of which the second and the third overlap the first anchor equally.
\<close>

definition example_anchors :: "box ndarray3" where
  "example_anchors =
     \<lparr>shape3 = (1, 1, 2),
      item = (\<lambda>i j n. if n = 0 then \<lparr>x_min = 0, y_min = 0, x_max = 6, y_max = 1\<rparr>
                       else \<lparr>x_min = 0, y_min = 0, x_max = 10, y_max = 1\<rparr>)\<rparr>"

definition example_bboxes :: "box list" where
  "example_bboxes = [\<lparr>x_min = 0, y_min = 0, x_max = 3, y_max = 1\<rparr>]"

definition example_bboxes_tie :: "box list" where
  "example_bboxes_tie =
     [\<lparr>x_min = 0, y_min = 0, x_max = 3, y_max = 1\<rparr>,
      \<lparr>x_min = 0, y_min = 0, x_max = 6, y_max = 1\<rparr>,
      \<lparr>x_min = 0, y_min = 0, x_max = 6, y_max = 1\<rparr>]"

section \<open>Properties of the anchor grid\<close>

lemma length_get_anchor_dimensions:
  "length get_anchor_dimensions = length ANCHORS_WIDTH_RATIOS * length ANCHORS_HEIGHT_RATIOS"
  by (simp add: get_anchor_dimensions_def length_concat comp_def sum_list_triv)






lemma W_H_vals: "NUMBER_ANCHORS_WIDE = 50" "NUMBER_ANCHORS_HEIGHT = 25"
  by (simp_all add: NUMBER_ANCHORS_WIDE_def NUMBER_ANCHORS_HEIGHT_def OUTPUT_SIZE_def)

lemma anchor_number_eq:
  "anchor_number = length ANCHORS_WIDTH_RATIOS * length ANCHORS_HEIGHT_RATIOS"
  by (simp add: anchor_number_def anchor_dimensions_def length_get_anchor_dimensions)

lemma length_flatten: "length (flatten a) = numel (shape3 a)"
  by (simp add: flatten_def numel_def split: prod.splits)



lemma anchor_number_9: "anchor_number = 9"
  by (simp add: anchor_number_eq ANCHORS_WIDTH_RATIOS_def ANCHORS_HEIGHT_RATIOS_def)






section \<open>Properties of flattening, maximum and first maximum\<close>

lemma flat_index_bound:
  assumes "i < d0" and "j < d1" and "n < (d2::nat)"
  shows "(i * d1 + j) * d2 + n < d0 * d1 * d2"
proof -
  have "i * d1 + j + 1 \<le> (i + 1) * d1" using assms(2) by simp
  also have "\<dots> \<le> d0 * d1" using assms(1) by (intro mult_le_mono1) simp
  finally have a: "i * d1 + j + 1 \<le> d0 * d1" .
  have "(i * d1 + j) * d2 + n < (i * d1 + j + 1) * d2" using assms(3) by simp
  also have "\<dots> \<le> d0 * d1 * d2" using a by (intro mult_le_mono1)
  finally show ?thesis .
qed

lemma flat_index_cell:
  assumes "j < d1" and "n < (d2::nat)"
  shows "((i * d1 + j) * d2 + n) div (d1 * d2) = i"
    and "(((i * d1 + j) * d2 + n) div d2) mod d1 = j"
    and "((i * d1 + j) * d2 + n) mod d2 = n"
proof -
  have q: "((i * d1 + j) * d2 + n) div d2 = i * d1 + j" using assms(2) by simp
  show "((i * d1 + j) * d2 + n) mod d2 = n" using assms(2) by simp
  show "(((i * d1 + j) * d2 + n) div d2) mod d1 = j" using q assms(1) by simp
  have "((i * d1 + j) * d2 + n) div (d2 * d1) = ((i * d1 + j) * d2 + n) div d2 div d1"
    by (rule div_mult2_eq)
  with q assms(1) show "((i * d1 + j) * d2 + n) div (d1 * d2) = i"
    by (simp add: mult.commute)
qed

lemma nth_flatten:
  assumes "shape3 a = (d0, d1, d2)" and "i < d0" and "j < d1" and "n < d2"
  shows "flatten a ! ((i * d1 + j) * d2 + n) = item a i j n"
  using assms flat_index_bound [OF assms(2,3,4)] flat_index_cell [OF assms(3,4), of i]
  by (simp add: flatten_def)

lemma reshape3_map_flatten:
  assumes "shape3 a = s"
  shows "\<exists>t. reshape3 s (map f (flatten a)) = Inr t \<and> shape3 t = s
          \<and> (\<forall>i j n. in_shape s i j n \<longrightarrow> item t i j n = f (item a i j n))"
proof -
  obtain d0 d1 d2 where s: "s = (d0, d1, d2)" by (cases s) auto
  have len: "length (map f (flatten a)) = d0 * d1 * d2"
    using assms s by (simp add: length_flatten numel_def)
  let ?t = "\<lparr>shape3 = s, item = (\<lambda>i j n. map f (flatten a) ! ((i * d1 + j) * d2 + n))\<rparr>"
  have r: "reshape3 s (map f (flatten a)) = Inr ?t"
    using len s by (simp add: reshape3_def)
  have "item ?t i j n = f (item a i j n)" if "in_shape s i j n" for i j n
  proof -
    from that s have b: "i < d0" "j < d1" "n < d2" by (simp_all add: in_shape_def)
    have "(i * d1 + j) * d2 + n < length (flatten a)"
      using flat_index_bound [OF b] len by simp
    then show ?thesis
      using nth_flatten [of a d0 d1 d2, OF _ b] assms s by simp
  qed
  with r show ?thesis by auto
qed

lemma amax_Max: "xs \<noteq> [] \<Longrightarrow> amax xs = Max (set xs)"
proof (induction xs rule: amax.induct)
  case (1 x xs)
  then show ?case by (cases "xs = []") simp_all
next
  case 2
  then show ?case by simp
qed

lemma argmax_less: "xs \<noteq> [] \<Longrightarrow> argmax xs < length xs"
  by (induction xs rule: argmax.induct) auto

lemma nth_argmax: "xs \<noteq> [] \<Longrightarrow> xs ! argmax xs = amax xs"
proof (induction xs rule: argmax.induct)
  case (1 x xs)
  then show ?case by (cases "xs = []") (auto simp: max_def)
next
  case 2
  then show ?case by simp
qed

lemma argmax_first: "xs \<noteq> [] \<Longrightarrow> k < argmax xs \<Longrightarrow> xs ! k < amax xs"
proof (induction xs arbitrary: k rule: argmax.induct)
  case (1 x xs)
  show ?case
  proof (cases "xs = [] \<or> amax xs \<le> x")
    case True
    with "1.prems" show ?thesis by auto
  next
    case False
    then have ne: "xs \<noteq> []" and lt: "x < amax xs" by auto
    show ?thesis
    proof (cases k)
      case 0
      with ne lt show ?thesis by (simp add: max_def)
    next
      case (Suc k')
      with "1.prems" ne lt have "k' < argmax xs" by simp
      from "1.IH" [OF ne _ ne this] lt have "xs ! k' < amax xs" by simp
      with Suc ne lt show ?thesis by (simp add: max_def)
    qed
  qed
next
  case 2
  then show ?case by simp
qed


section \<open>Properties of the matcher\<close>

lemma fill_ious_cases:
  "fill_ious iou anchors bboxes = Inl IndexError \<or>
   fill_ious iou anchors bboxes =
     Inr \<lparr>shape4 = (NUMBER_ANCHORS_WIDE, NUMBER_ANCHORS_HEIGHT, anchor_number, length bboxes),
          item4 = (\<lambda>i j n b. if in_shape (shape3 anchors) i j n
                                then iou (item anchors i j n) (bboxes ! b) else 0)\<rparr>"
  by (simp add: fill_ious_def split: prod.splits)

lemma fill_ious_Inr:
  assumes "fill_ious iou anchors bboxes = Inr ious"
  shows "ious = \<lparr>shape4 = (NUMBER_ANCHORS_WIDE, NUMBER_ANCHORS_HEIGHT, anchor_number, length bboxes),
          item4 = (\<lambda>i j n b. if in_shape (shape3 anchors) i j n
                                then iou (item anchors i j n) (bboxes ! b) else 0)\<rparr>"
  using assms fill_ious_cases [of iou anchors bboxes] by auto

lemma fill_ious_fits:
  assumes "fill_ious iou anchors bboxes = Inr ious" and "bboxes \<noteq> []"
    and "in_shape (shape3 anchors) i j n"
  shows "in_shape (NUMBER_ANCHORS_WIDE, NUMBER_ANCHORS_HEIGHT, anchor_number) i j n"
  using assms
  by (auto simp: fill_ious_def in_shape_def split: prod.splits if_splits)

lemma fill_ious_total:
  assumes "fst (shape3 anchors) \<le> NUMBER_ANCHORS_WIDE"
    and "fst (snd (shape3 anchors)) \<le> NUMBER_ANCHORS_HEIGHT"
    and "snd (snd (shape3 anchors)) \<le> anchor_number"
  shows "\<exists>ious. fill_ious iou anchors bboxes = Inr ious"
  using assms by (auto simp: fill_ious_def split: prod.splits)

lemma map_nth_fun: "map (\<lambda>b. f (xs ! b)) [0..<length xs] = map f xs"
  by (rule nth_equalityI) simp_all

lemma iou_row:
  assumes "in_shape (shape3 anchors) i j n"
  shows "map (\<lambda>b. if in_shape (shape3 anchors) i j n then iou (item anchors i j n) (bboxes ! b) else 0)
           [0..<length bboxes] = map (iou (item anchors i j n)) bboxes"
  using assms map_nth_fun [of "iou (item anchors i j n)" bboxes] by simp

lemma matcher_nonempty:
  assumes "bboxes \<noteq> []"
    and "get_positive_negative_anchors iou anchors bboxes = Inr (truth_bbox, positives, negatives)"
  shows "\<exists>ious max_iou_per_anchor.
      fill_ious iou anchors bboxes = Inr ious
    \<and> amax_axis3 ious = Inr max_iou_per_anchor
    \<and> shape3 max_iou_per_anchor = (NUMBER_ANCHORS_WIDE, NUMBER_ANCHORS_HEIGHT, anchor_number)
    \<and> (\<forall>i j n. item max_iou_per_anchor i j n = amax (map (item4 ious i j n) [0..<length bboxes]))
    \<and> positives = map3 (\<lambda>v. v > POSITIVE_THRESHOLD) max_iou_per_anchor
    \<and> negatives = map3 (\<lambda>v. v < NEGATIVE_THRESHOLD) max_iou_per_anchor
    \<and> shape3 truth_bbox = (NUMBER_ANCHORS_WIDE, NUMBER_ANCHORS_HEIGHT, anchor_number)
    \<and> (\<forall>i j n. in_shape (NUMBER_ANCHORS_WIDE, NUMBER_ANCHORS_HEIGHT, anchor_number) i j n \<longrightarrow>
          item truth_bbox i j n = bboxes ! argmax (map (item4 ious i j n) [0..<length bboxes]))"
proof -
  let ?G = "(NUMBER_ANCHORS_WIDE, NUMBER_ANCHORS_HEIGHT, anchor_number)"
  from assms obtain ious where f: "fill_ious iou anchors bboxes = Inr ious"
    by (auto simp: get_positive_negative_anchors_def split: sum.splits)
  have sh: "shape4 ious = (NUMBER_ANCHORS_WIDE, NUMBER_ANCHORS_HEIGHT, anchor_number, length bboxes)"
    using fill_ious_Inr [OF f] by simp
  let ?am = "\<lparr>shape3 = ?G, item = (\<lambda>i j n. argmax (map (item4 ious i j n) [0..<length bboxes]))\<rparr>"
  let ?mx = "\<lparr>shape3 = ?G, item = (\<lambda>i j n. amax (map (item4 ious i j n) [0..<length bboxes]))\<rparr>"
  have am: "argmax_axis3 ious = Inr ?am"
    using sh assms(1) by (simp add: argmax_axis3_def)
  have mx: "amax_axis3 ious = Inr ?mx"
    using sh assms(1) by (simp add: amax_axis3_def)
  have "shape3 ?am = ?G" by simp
  from reshape3_map_flatten [OF this, of "\<lambda>k. bboxes ! k"]
  obtain t where t: "reshape3 ?G (map (\<lambda>k. bboxes ! k) (flatten ?am)) = Inr t"
    and ts: "shape3 t = ?G"
    and ti: "\<forall>i j n. in_shape ?G i j n \<longrightarrow> item t i j n = bboxes ! (item ?am i j n)"
    by blast
  have pf: "shape_prefix3 (shape4 ious) = ?G" by (simp add: sh shape_prefix3_def)
  from assms f am mx t pf
  have res: "truth_bbox = t" "positives = map3 (\<lambda>v. v > POSITIVE_THRESHOLD) ?mx"
    "negatives = map3 (\<lambda>v. v < NEGATIVE_THRESHOLD) ?mx"
    by (simp_all add: get_positive_negative_anchors_def Let_def)
  from ti have ti': "\<forall>i j n. in_shape ?G i j n \<longrightarrow>
          item t i j n = bboxes ! argmax (map (item4 ious i j n) [0..<length bboxes])"
    by simp
  show ?thesis
    apply (rule exI [of _ ious], rule exI [of _ ?mx])
    using f mx res ts ti' by simp
qed

lemma matcher_total:
  assumes "fst (shape3 anchors) \<le> NUMBER_ANCHORS_WIDE"
    and "fst (snd (shape3 anchors)) \<le> NUMBER_ANCHORS_HEIGHT"
    and "snd (snd (shape3 anchors)) \<le> anchor_number"
  shows "\<exists>truth_bbox positives negatives.
     get_positive_negative_anchors iou anchors bboxes = Inr (truth_bbox, positives, negatives)"
proof (cases "bboxes = []")
  case True
  then show ?thesis by (simp add: get_positive_negative_anchors_def Let_def)
next
  case False
  let ?G = "(NUMBER_ANCHORS_WIDE, NUMBER_ANCHORS_HEIGHT, anchor_number)"
  from fill_ious_total [OF assms] obtain ious where f: "fill_ious iou anchors bboxes = Inr ious"
    by blast
  have sh: "shape4 ious = (NUMBER_ANCHORS_WIDE, NUMBER_ANCHORS_HEIGHT, anchor_number, length bboxes)"
    using fill_ious_Inr [OF f] by simp
  let ?am = "\<lparr>shape3 = ?G, item = (\<lambda>i j n. argmax (map (item4 ious i j n) [0..<length bboxes]))\<rparr>"
  have am: "argmax_axis3 ious = Inr ?am"
    using sh False by (simp add: argmax_axis3_def)
  have mx: "\<exists>m. amax_axis3 ious = Inr m"
    using sh False by (simp add: amax_axis3_def)
  have "shape3 ?am = ?G" by simp
  from reshape3_map_flatten [OF this, of "\<lambda>k. bboxes ! k"]
  obtain t where t: "reshape3 ?G (map (\<lambda>k. bboxes ! k) (flatten ?am)) = Inr t" by blast
  have pf: "shape_prefix3 (shape4 ious) = ?G" by (simp add: sh shape_prefix3_def)
  from False f am mx t pf show ?thesis
    by (auto simp: get_positive_negative_anchors_def Let_def)
qed

lemma matcher_cell:
  assumes "bboxes \<noteq> []"
    and "get_positive_negative_anchors iou anchors bboxes = Inr (truth_bbox, positives, negatives)"
    and "in_shape (shape3 anchors) i j n"
  shows "\<exists>ious max_iou_per_anchor.
      fill_ious iou anchors bboxes = Inr ious
    \<and> amax_axis3 ious = Inr max_iou_per_anchor
    \<and> item max_iou_per_anchor i j n = amax (map (iou (item anchors i j n)) bboxes)
    \<and> item positives i j n = (amax (map (iou (item anchors i j n)) bboxes) > POSITIVE_THRESHOLD)
    \<and> item negatives i j n = (amax (map (iou (item anchors i j n)) bboxes) < NEGATIVE_THRESHOLD)
    \<and> item truth_bbox i j n = bboxes ! argmax (map (iou (item anchors i j n)) bboxes)"
proof -
  from matcher_nonempty [OF assms(1,2)] obtain ious mx where
    f: "fill_ious iou anchors bboxes = Inr ious" and m: "amax_axis3 ious = Inr mx"
    and mi: "\<forall>i j n. item mx i j n = amax (map (item4 ious i j n) [0..<length bboxes])"
    and p: "positives = map3 (\<lambda>v. v > POSITIVE_THRESHOLD) mx"
    and q: "negatives = map3 (\<lambda>v. v < NEGATIVE_THRESHOLD) mx"
    and t: "\<forall>i j n. in_shape (NUMBER_ANCHORS_WIDE, NUMBER_ANCHORS_HEIGHT, anchor_number) i j n \<longrightarrow>
          item truth_bbox i j n = bboxes ! argmax (map (item4 ious i j n) [0..<length bboxes])"
    by blast
  have row: "map (item4 ious i j n) [0..<length bboxes] = map (iou (item anchors i j n)) bboxes"
    using fill_ious_Inr [OF f] iou_row [OF assms(3), of iou bboxes] by simp
  have g: "in_shape (NUMBER_ANCHORS_WIDE, NUMBER_ANCHORS_HEIGHT, anchor_number) i j n"
    by (rule fill_ious_fits [OF f assms(1,3)])
  show ?thesis
    apply (rule exI [of _ ious], rule exI [of _ mx])
    using f m mi p q t g row by (simp add: map3_def)
qed


text \<open>
  Claim C7. For a non-empty list of ground-truth boxes and every anchor, the matcher's
  maximal overlap is the maximum of the anchor's overlaps with the ground-truth boxes, and
  the matched box is the ground-truth box at the first index that reaches this maximum.
\<close>

theorem matcher_first_max:
  assumes "bboxes \<noteq> []"
    and "get_positive_negative_anchors iou anchors bboxes = Inr (truth_bbox, positives, negatives)"
    and "in_shape (shape3 anchors) i j n"
  shows "\<exists>ious max_iou_per_anchor k.
      fill_ious iou anchors bboxes = Inr ious
    \<and> amax_axis3 ious = Inr max_iou_per_anchor
    \<and> item max_iou_per_anchor i j n = Max (iou (item anchors i j n) ` set bboxes)
    \<and> k < length bboxes
    \<and> item truth_bbox i j n = bboxes ! k
    \<and> iou (item anchors i j n) (bboxes ! k) = Max (iou (item anchors i j n) ` set bboxes)
    \<and> (\<forall>k' < k. iou (item anchors i j n) (bboxes ! k') < iou (item anchors i j n) (bboxes ! k))"
proof -
  let ?row = "map (iou (item anchors i j n)) bboxes"
  let ?k = "argmax ?row"
  from matcher_cell [OF assms] obtain ious mx where
    f: "fill_ious iou anchors bboxes = Inr ious" and m: "amax_axis3 ious = Inr mx"
    and mi: "item mx i j n = amax ?row"
    and t: "item truth_bbox i j n = bboxes ! ?k"
    by blast
  have ne: "?row \<noteq> []" using assms(1) by simp
  have mx: "amax ?row = Max (iou (item anchors i j n) ` set bboxes)"
    using amax_Max [OF ne] by simp
  have k: "?k < length bboxes" using argmax_less [OF ne] by simp
  have v: "iou (item anchors i j n) (bboxes ! ?k) = amax ?row"
    using nth_argmax [OF ne] k by simp
  have first: "\<forall>k' < ?k. iou (item anchors i j n) (bboxes ! k') < iou (item anchors i j n) (bboxes ! ?k)"
  proof (intro allI impI)
    fix k' assume lt: "k' < ?k"
    with k have "k' < length bboxes" by simp
    with argmax_first [OF ne lt] v show
      "iou (item anchors i j n) (bboxes ! k') < iou (item anchors i j n) (bboxes ! ?k)"
      by simp
  qed
  show ?thesis
    apply (rule exI [of _ ious], rule exI [of _ mx], rule exI [of _ ?k])
    using f m mi mx k t v first by simp
qed

text \<open>
  Claim C2. For a non-empty list of ground-truth boxes the thresholds are strict: an
  anchor whose maximal overlap is exactly 0.5 is not positive, one whose maximal overlap is
  exactly 0.3 is not negative, and an anchor whose maximal overlap lies between 0.3 and
  0.5, both included, is neither.
\<close>

theorem thresholds_strict:
  assumes "bboxes \<noteq> []"
    and "get_positive_negative_anchors iou anchors bboxes = Inr (truth_bbox, positives, negatives)"
    and "in_shape (shape3 anchors) i j n"
  shows "(Max (iou (item anchors i j n) ` set bboxes) = 5 / 10 \<longrightarrow> \<not> item positives i j n)
    \<and> (Max (iou (item anchors i j n) ` set bboxes) = 3 / 10 \<longrightarrow> \<not> item negatives i j n)
    \<and> (3 / 10 \<le> Max (iou (item anchors i j n) ` set bboxes)
         \<and> Max (iou (item anchors i j n) ` set bboxes) \<le> 5 / 10
        \<longrightarrow> \<not> item positives i j n \<and> \<not> item negatives i j n)
    \<and> (item positives i j n \<longleftrightarrow> 5 / 10 < Max (iou (item anchors i j n) ` set bboxes))
    \<and> (item negatives i j n \<longleftrightarrow> Max (iou (item anchors i j n) ` set bboxes) < 3 / 10)"
proof -
  let ?row = "map (iou (item anchors i j n)) bboxes"
  from matcher_cell [OF assms] have
    p: "item positives i j n = (amax ?row > POSITIVE_THRESHOLD)"
    and q: "item negatives i j n = (amax ?row < NEGATIVE_THRESHOLD)"
    by blast+
  have ne: "?row \<noteq> []" using assms(1) by simp
  have mx: "amax ?row = Max (iou (item anchors i j n) ` set bboxes)"
    using amax_Max [OF ne] by simp
  from p q mx show ?thesis
    by (simp add: POSITIVE_THRESHOLD_def NEGATIVE_THRESHOLD_def)
qed

text \<open>
  Claim C9. Whatever the ground-truth boxes, empty or not, no anchor is labelled both
  positive and negative.
\<close>

theorem masks_disjoint:
  assumes "get_positive_negative_anchors iou anchors bboxes = Inr (truth_bbox, positives, negatives)"
  shows "\<not> (item positives i j n \<and> item negatives i j n)"
proof (cases "bboxes = []")
  case True
  with assms show ?thesis
    by (auto simp: get_positive_negative_anchors_def Let_def map3_def full3_def
        POSITIVE_THRESHOLD_def NEGATIVE_THRESHOLD_def)
next
  case False
  from matcher_nonempty [OF False assms] obtain mx where
    "positives = map3 (\<lambda>v. v > POSITIVE_THRESHOLD) mx"
    "negatives = map3 (\<lambda>v. v < NEGATIVE_THRESHOLD) mx"
    by blast
  then show ?thesis
    by (simp add: map3_def POSITIVE_THRESHOLD_def NEGATIVE_THRESHOLD_def)
qed


lemma example_anchors_fit:
  "fst (shape3 example_anchors) \<le> NUMBER_ANCHORS_WIDE"
  "fst (snd (shape3 example_anchors)) \<le> NUMBER_ANCHORS_HEIGHT"
  "snd (snd (shape3 example_anchors)) \<le> anchor_number"
  by (simp_all add: example_anchors_def W_H_vals anchor_number_9)

lemma example_cells:
  "in_shape (shape3 example_anchors) 0 0 0" "in_shape (shape3 example_anchors) 0 0 1"
  by (simp_all add: example_anchors_def in_shape_def)

lemma example_ious:
  "IoU (item example_anchors 0 0 0) \<lparr>x_min = 0, y_min = 0, x_max = 3, y_max = 1\<rparr> = 5 / 10"
  "IoU (item example_anchors 0 0 1) \<lparr>x_min = 0, y_min = 0, x_max = 3, y_max = 1\<rparr> = 3 / 10"
  "IoU (item example_anchors 0 0 0) \<lparr>x_min = 0, y_min = 0, x_max = 6, y_max = 1\<rparr> = 1"
  by (simp_all add: example_anchors_def IoU_def Let_def)

theorem thresholds_strict_witness:
  "\<exists>truth_bbox positives negatives.
     get_positive_negative_anchors IoU example_anchors example_bboxes
       = Inr (truth_bbox, positives, negatives)
     \<and> Max (IoU (item example_anchors 0 0 0) ` set example_bboxes) = 5 / 10
     \<and> \<not> item positives 0 0 0 \<and> \<not> item negatives 0 0 0
     \<and> Max (IoU (item example_anchors 0 0 1) ` set example_bboxes) = 3 / 10
     \<and> \<not> item positives 0 0 1 \<and> \<not> item negatives 0 0 1"
proof -
  from matcher_total [OF example_anchors_fit, of IoU example_bboxes]
  obtain tb pos neg where
    r: "get_positive_negative_anchors IoU example_anchors example_bboxes = Inr (tb, pos, neg)"
    by blast
  have ne: "example_bboxes \<noteq> []" by (simp add: example_bboxes_def)
  have m0: "Max (IoU (item example_anchors 0 0 0) ` set example_bboxes) = 5 / 10"
    and m1: "Max (IoU (item example_anchors 0 0 1) ` set example_bboxes) = 3 / 10"
    using example_ious by (simp_all add: example_bboxes_def)
  from thresholds_strict [OF ne r example_cells(1)] m0
  have c0: "\<not> item pos 0 0 0 \<and> \<not> item neg 0 0 0" by simp
  from thresholds_strict [OF ne r example_cells(2)] m1
  have c1: "\<not> item pos 0 0 1 \<and> \<not> item neg 0 0 1" by simp
  from r m0 m1 c0 c1 show ?thesis by blast
qed

theorem matcher_first_max_witness:
  "\<exists>truth_bbox positives negatives.
     get_positive_negative_anchors IoU example_anchors example_bboxes_tie
       = Inr (truth_bbox, positives, negatives)
     \<and> item truth_bbox 0 0 0 = example_bboxes_tie ! 1"
proof -
  from matcher_total [OF example_anchors_fit, of IoU example_bboxes_tie]
  obtain tb pos neg where
    r: "get_positive_negative_anchors IoU example_anchors example_bboxes_tie = Inr (tb, pos, neg)"
    by blast
  have ne: "example_bboxes_tie \<noteq> []" by (simp add: example_bboxes_tie_def)
  have len: "length example_bboxes_tie = 3" by (simp add: example_bboxes_tie_def)
  have v: "IoU (item example_anchors 0 0 0) (example_bboxes_tie ! 0) = 5 / 10"
    "IoU (item example_anchors 0 0 0) (example_bboxes_tie ! 1) = 1"
    "IoU (item example_anchors 0 0 0) (example_bboxes_tie ! 2) = 1"
    by (simp_all add: example_bboxes_tie_def example_ious)
  have m: "Max (IoU (item example_anchors 0 0 0) ` set example_bboxes_tie) = 1"
    by (simp add: example_bboxes_tie_def example_ious)
  from matcher_first_max [OF ne r example_cells(1)] obtain k where
    k: "k < length example_bboxes_tie" and t: "item tb 0 0 0 = example_bboxes_tie ! k"
    and e: "IoU (item example_anchors 0 0 0) (example_bboxes_tie ! k)
            = Max (IoU (item example_anchors 0 0 0) ` set example_bboxes_tie)"
    and f: "\<forall>k' < k. IoU (item example_anchors 0 0 0) (example_bboxes_tie ! k')
            < IoU (item example_anchors 0 0 0) (example_bboxes_tie ! k)"
    by blast
  from k len have "k = 0 \<or> k = 1 \<or> k = 2" by arith
  then have "k = 1"
  proof (elim disjE)
    assume "k = 0"
    with e m v show ?thesis by simp
  next
    assume "k = 1"
    then show ?thesis .
  next
    assume k2: "k = 2"
    with f have "IoU (item example_anchors 0 0 0) (example_bboxes_tie ! 1)
            < IoU (item example_anchors 0 0 0) (example_bboxes_tie ! 2)" by simp
    with v show ?thesis by simp
  qed
  with r t show ?thesis by blast
qed

theorem masks_disjoint_witness:
  "\<exists>truth_bbox positives negatives.
     get_positive_negative_anchors IoU example_anchors [] = Inr (truth_bbox, positives, negatives)
     \<and> \<not> (item positives 0 0 0 \<and> item negatives 0 0 0)"
proof -
  from matcher_total [OF example_anchors_fit, of IoU "[]"]
  obtain tb pos neg where
    r: "get_positive_negative_anchors IoU example_anchors [] = Inr (tb, pos, neg)"
    by blast
  from masks_disjoint [OF r, of 0 0 0] r show ?thesis by blast
qed

end
